theory Spec2Isabelle
  imports Main
begin

section \<open>The packaging descriptor \<open>DYMS-Lang/setup.py\<close>\<close>

text \<open>
  The repository's only source file is a setuptools descriptor: a single call
  \<^verbatim>\<open>setup(name=..., version=..., ..., classifiers=[...])\<close>
  whose keyword arguments are literals, except \<open>packages\<close>, which is the value of
  \<^verbatim>\<open>find_packages()\<close>. The model keeps the call as it is written: the keyword
  arguments in source order, each with its Python value, as a function of the context
  in which the file is evaluated.
\<close>

subsection \<open>Python values and the evaluation context\<close>

text \<open>The values that occur in the call: strings, lists, and a dict (kept in source order).\<close>

datatype pyval = PStr string | PList "pyval list" | PDict "(string \<times> pyval) list"

text \<open>
  A directory is the list of its entries, in the order the operating system lists them;
  an entry is a file or a directory.
\<close>

datatype fsnode = File | Dir "(string \<times> fsnode) list"

text \<open>
  The context of an evaluation of the file: the entries of the current directory (the one
  \<^verbatim>\<open>find_packages()\<close> scans, its \<open>where\<close> being \<^verbatim>\<open>'.'\<close>) and the environment variables.
\<close>

record eval_context =
  cwd :: "(string \<times> fsnode) list"
  environ :: "(string \<times> string) list"

subsection \<open>\<open>find_packages\<close>, as setuptools defines it\<close>

text \<open>
  \<^verbatim>\<open>find_packages\<close> is imported from setuptools (\<^verbatim>\<open>PackageFinder.find\<close>); the file calls
  it with no argument, so \<^verbatim>\<open>where='.'\<close>, \<^verbatim>\<open>include=('*',)\<close> and the excluded patterns
  are the built-in \<^verbatim>\<open>'ez_setup'\<close> and \<^verbatim>\<open>'*__pycache__'\<close>. It walks the directory top-down:
  a subdirectory is kept when its name has no dot and it holds a file \<^verbatim>\<open>__init__.py\<close>;
  the dotted path of each kept subdirectory is reported unless excluded, and only kept
  subdirectories are walked further.
\<close>

fun looks_like_package :: "fsnode \<Rightarrow> bool" where
  "looks_like_package File = False"
| "looks_like_package (Dir es) = (map_of es ''__init__.py'' = Some File)"

definition package :: "string \<Rightarrow> string \<Rightarrow> string" where
  "package pre n = (if pre = [] then n else pre @ ''.'' @ n)"

definition ends_with :: "string \<Rightarrow> string \<Rightarrow> bool" where
  "ends_with s suf = (length suf \<le> length s \<and> drop (length s - length suf) s = suf)"

definition excluded :: "string \<Rightarrow> bool" where
  "excluded p = (p = ''ez_setup'' \<or> ends_with p ''__pycache__'')"

definition keeps :: "string \<Rightarrow> fsnode \<Rightarrow> bool" where
  "keeps n d = (CHR ''.'' \<notin> set n \<and> looks_like_package d)"

fun find_iter :: "string \<Rightarrow> fsnode \<Rightarrow> string list" where
  "find_iter pre File = []"
| "find_iter pre (Dir es) =
     concat (map (\<lambda>(n, d). if keeps n d \<and> \<not> excluded (package pre n)
                            then [package pre n] else []) es)
     @ concat (map (\<lambda>(n, d). if keeps n d then find_iter (package pre n) d else []) es)"

definition find_packages :: "(string \<times> fsnode) list \<Rightarrow> string list" where
  "find_packages es = find_iter [] (Dir es)"

subsection \<open>The call of \<open>setup\<close>\<close>

definition classifiers :: "string list" where
  "classifiers =
     [''Development Status :: 4 - Beta'',
      ''Environment :: Plugins'',
      ''Intended Audience :: Developers'',
      ''License :: OSI Approved :: MIT License'',
      ''Operating System :: OS Independent'',
      ''Programming Language :: Python'',
      ''Programming Language :: Python :: 3'',
      ''Topic :: Software Development :: Libraries :: Python Modules'',
      ''Topic :: Text Processing :: Filters'']"

text \<open>
  The keyword arguments of the call, in the order of the source; \<open>ps\<close> is the list that
  \<^verbatim>\<open>find_packages()\<close> returned.
\<close>

definition setup_call :: "string list \<Rightarrow> (string \<times> pyval) list" where
  "setup_call ps =
     [(''name'', PStr ''dyms_lexer''),
      (''version'', PStr ''0.2.0''),
      (''description'', PStr ''Pygments lexer for DYMS programming language''),
      (''author'', PStr ''Dev-Dami''),
      (''packages'', PList (map PStr ps)),
      (''install_requires'', PList [PStr ''Pygments>=2.0'']),
      (''entry_points'',
         PDict [(''pygments.lexers'', PList [PStr ''dyms = dyms_lexer:DymsLexer''])]),
      (''classifiers'', PList (map PStr classifiers))]"

text \<open>The arguments in a context where \<^verbatim>\<open>find_packages()\<close> returns.\<close>

definition setup_kwargs :: "eval_context \<Rightarrow> (string \<times> pyval) list" where
  "setup_kwargs ctx = setup_call (find_packages (cwd ctx))"

text \<open>
  The whole file, statement by statement. Everything that can fail in it belongs to the
  installation that runs it, here the parameter \<open>h\<close>: the import of line 1 (which fails
  when setuptools is missing), the call \<^verbatim>\<open>find_packages()\<close> of line 8 (which may raise,
  for instance on a tree too deep for the walk) and the call of \<^verbatim>\<open>setup\<close> itself. A
  failure is \<open>Inl\<close>, a result \<open>Inr\<close>. The file has no \<^verbatim>\<open>try\<close>, \<^verbatim>\<open>raise\<close>, \<^verbatim>\<open>if\<close> or
  \<^verbatim>\<open>assert\<close>: a failure of a step ends the file with that failure, and the other
  arguments, being literals, cannot fail.
\<close>

record ('e, 'r) host =
  import_setuptools :: "eval_context \<Rightarrow> 'e + unit"
  lib_find_packages :: "(string \<times> fsnode) list \<Rightarrow> 'e + string list"
  lib_setup :: "(string \<times> pyval) list \<Rightarrow> 'e + 'r"

definition setup_py :: "('e, 'r) host \<Rightarrow> eval_context \<Rightarrow> 'e + 'r" where
  "setup_py h ctx =
     (case import_setuptools h ctx of
        Inl e \<Rightarrow> Inl e
      | Inr u \<Rightarrow>
          (case lib_find_packages h (cwd ctx) of
             Inl e \<Rightarrow> Inl e
           | Inr ps \<Rightarrow> lib_setup h (setup_call ps)))"

text \<open>Reading one keyword argument, as the host does.\<close>

definition kwarg :: "eval_context \<Rightarrow> string \<Rightarrow> pyval option" where
  "kwarg ctx k = map_of (setup_kwargs ctx) k"

subsection \<open>Entry points\<close>

text \<open>
  The host reads each string of an entry-point group as \<^verbatim>\<open>name = module:attr\<close>: the name
  is what stands before the first \<^verbatim>\<open>=\<close>, the module what stands between it and the first
  \<^verbatim>\<open>:\<close>, the attribute the rest, each without its surrounding blanks.
\<close>

definition strip :: "string \<Rightarrow> string" where
  "strip s = rev (dropWhile (\<lambda>c. c = CHR '' '') (rev (dropWhile (\<lambda>c. c = CHR '' '') s)))"

definition split_at :: "char \<Rightarrow> string \<Rightarrow> (string \<times> string) option" where
  "split_at c s =
     (case dropWhile (\<lambda>x. x \<noteq> c) s of
        [] \<Rightarrow> None
      | _ # r \<Rightarrow> Some (takeWhile (\<lambda>x. x \<noteq> c) s, r))"

record entry_point =
  ep_group :: string
  ep_name :: string
  ep_module :: string
  ep_attr :: string

definition parse_entry_point :: "string \<Rightarrow> string \<Rightarrow> entry_point option" where
  "parse_entry_point g s =
     (case split_at (CHR ''='') s of
        None \<Rightarrow> None
      | Some (n, v) \<Rightarrow>
          (case split_at (CHR '':'') v of
             None \<Rightarrow> Some \<lparr>ep_group = g, ep_name = strip n, ep_module = strip v, ep_attr = []\<rparr>
           | Some (m, a) \<Rightarrow>
               Some \<lparr>ep_group = g, ep_name = strip n, ep_module = strip m, ep_attr = strip a\<rparr>))"

text \<open>The strings of a list value, and the (group, string) pairs of the dict of groups.\<close>

definition strings_of :: "pyval \<Rightarrow> string list" where
  "strings_of v =
     (case v of
        PList vs \<Rightarrow> concat (map (\<lambda>x. case x of PStr s \<Rightarrow> [s] | _ \<Rightarrow> []) vs)
      | _ \<Rightarrow> [])"

definition entry_lines :: "pyval \<Rightarrow> (string \<times> string) list" where
  "entry_lines v =
     (case v of
        PDict gs \<Rightarrow> concat (map (\<lambda>(g, ls). map (\<lambda>s. (g, s)) (strings_of ls)) gs)
      | _ \<Rightarrow> [])"

definition registered_entry_points :: "eval_context \<Rightarrow> entry_point option list" where
  "registered_entry_points ctx =
     (case kwarg ctx ''entry_points'' of
        None \<Rightarrow> []
      | Some v \<Rightarrow> map (\<lambda>(g, s). parse_entry_point g s) (entry_lines v))"

subsection \<open>Requirements\<close>

text \<open>
  A requirement string is a distribution name, a comparison operator and a version. The
  versions of the model are final releases: lists of release numbers, compared number by
  number, a missing number counting as zero (\<^verbatim>\<open>2\<close> and \<^verbatim>\<open>2.0\<close> are the same version).
\<close>

definition is_op_char :: "char \<Rightarrow> bool" where
  "is_op_char c = (c \<in> set ''<>=!~'')"

definition digit_val :: "char \<Rightarrow> nat option" where
  "digit_val c =
     (let k = (of_char c :: nat) in if 48 \<le> k \<and> k \<le> 57 then Some (k - 48) else None)"

fun parse_digits :: "nat \<Rightarrow> string \<Rightarrow> nat option" where
  "parse_digits acc [] = Some acc"
| "parse_digits acc (c # cs) =
     (case digit_val c of None \<Rightarrow> None | Some d \<Rightarrow> parse_digits (10 * acc + d) cs)"

definition parse_number :: "string \<Rightarrow> nat option" where
  "parse_number s = (if s = [] then None else parse_digits 0 s)"

fun split_on :: "char \<Rightarrow> string \<Rightarrow> string \<Rightarrow> string list" where
  "split_on c cur [] = [rev cur]"
| "split_on c cur (x # xs) = (if x = c then rev cur # split_on c [] xs else split_on c (x # cur) xs)"

definition parse_version :: "string \<Rightarrow> nat list option" where
  "parse_version s = those (map parse_number (split_on (CHR ''.'') [] s))"

record requirement =
  req_name :: string
  req_op :: string
  req_version :: "nat list"

definition parse_requirement :: "string \<Rightarrow> requirement option" where
  "parse_requirement s =
     (let n = takeWhile (\<lambda>c. \<not> is_op_char c) s;
          r = dropWhile (\<lambda>c. \<not> is_op_char c) s;
          op = takeWhile is_op_char r;
          v = dropWhile is_op_char r
      in case parse_version (strip v) of
           None \<Rightarrow> None
         | Some ver \<Rightarrow> Some \<lparr>req_name = strip n, req_op = op, req_version = ver\<rparr>)"

fun release_le :: "nat list \<Rightarrow> nat list \<Rightarrow> bool" where
  "release_le [] ys = True"
| "release_le (x # xs) [] = (x = 0 \<and> release_le xs [])"
| "release_le (x # xs) (y # ys) = (x < y \<or> (x = y \<and> release_le xs ys))"

text \<open>
  Whether version \<open>v\<close> satisfies the requirement; \<open>None\<close> for an operator outside the
  comparison operators.
\<close>

definition satisfies :: "nat list \<Rightarrow> requirement \<Rightarrow> bool option" where
  "satisfies v q =
     (let b = req_version q; op = req_op q in
      if op = ''>='' then Some (release_le b v)
      else if op = ''<='' then Some (release_le v b)
      else if op = ''=='' then Some (release_le b v \<and> release_le v b)
      else if op = ''!='' then Some (\<not> (release_le b v \<and> release_le v b))
      else if op = ''>'' then Some (\<not> release_le v b)
      else if op = ''<'' then Some (\<not> release_le b v)
      else None)"

definition declared_requirements :: "eval_context \<Rightarrow> requirement option list" where
  "declared_requirements ctx =
     (case kwarg ctx ''install_requires'' of
        None \<Rightarrow> []
      | Some v \<Rightarrow> map parse_requirement (strings_of v))"

subsection \<open>The provided source tree\<close>

text \<open>The directory of the descriptor, as provided: it holds \<^verbatim>\<open>setup.py\<close> and nothing else.\<close>

definition provided_source :: "(string \<times> fsnode) list" where
  "provided_source = [(''setup.py'', File)]"

text \<open>
  A directory provides module \<open>m\<close> to an import when it holds the file \<^verbatim>\<open>m.py\<close> or a
  package directory \<open>m\<close>.
\<close>

definition provides_module :: "(string \<times> fsnode) list \<Rightarrow> string \<Rightarrow> bool" where
  "provides_module es m =
     (map_of es (m @ ''.py'') = Some File
      \<or> (case map_of es m of None \<Rightarrow> False | Some d \<Rightarrow> looks_like_package d))"

text \<open>Two contexts: the provided tree alone, and the tree with a lexer package beside it.\<close>

definition ctx_provided :: eval_context where
  "ctx_provided = \<lparr>cwd = provided_source, environ = []\<rparr>"


subsection \<open>Directories with the same contents\<close>




definition dir_ba :: "(string \<times> fsnode) list" where
  "dir_ba =
     [(''b'', Dir [(''__init__.py'', File), (''x'', Dir [(''__init__.py'', File)])]),
      (''a'', Dir [(''__init__.py'', File)]),
      (''setup.py'', File)]"



subsection \<open>Four installations\<close>

text \<open>
  An installation where every step succeeds, and three where one step fails: the import,
  the scan for packages, the call of \<open>setup\<close>.
\<close>

definition h_ok :: "(string, nat) host" where
  "h_ok =
     \<lparr>import_setuptools = (\<lambda>ctx. Inr ()),
      lib_find_packages = (\<lambda>es. Inr (find_packages es)),
      lib_setup = (\<lambda>kw. Inr (length kw))\<rparr>"

definition h_no_setuptools :: "(string, nat) host" where
  "h_no_setuptools = h_ok\<lparr>import_setuptools := (\<lambda>ctx. Inl ''ModuleNotFoundError'')\<rparr>"

definition h_scan_fails :: "(string, nat) host" where
  "h_scan_fails = h_ok\<lparr>lib_find_packages := (\<lambda>es. Inl ''RecursionError'')\<rparr>"

definition h_setup_fails :: "(string, nat) host" where
  "h_setup_fails = h_ok\<lparr>lib_setup := (\<lambda>kw. Inl ''version conflict'')\<rparr>"

section \<open>Evaluating the descriptor\<close>

subsection \<open>The literal arguments\<close>

lemma kwarg_entry_points:
  "kwarg ctx ''entry_points'' =
     Some (PDict [(''pygments.lexers'', PList [PStr ''dyms = dyms_lexer:DymsLexer''])])"
  by (simp add: kwarg_def setup_kwargs_def setup_call_def)

lemma kwarg_install_requires:
  "kwarg ctx ''install_requires'' = Some (PList [PStr ''Pygments>=2.0''])"
  by (simp add: kwarg_def setup_kwargs_def setup_call_def)

lemma kwarg_packages:
  "kwarg ctx ''packages'' = Some (PList (map PStr (find_packages (cwd ctx))))"
  by (simp add: kwarg_def setup_kwargs_def setup_call_def)


subsection \<open>Reading the entry point and the requirement\<close>

lemma parse_dyms_entry:
  "parse_entry_point ''pygments.lexers'' ''dyms = dyms_lexer:DymsLexer'' =
     Some \<lparr>ep_group = ''pygments.lexers'', ep_name = ''dyms'',
           ep_module = ''dyms_lexer'', ep_attr = ''DymsLexer''\<rparr>"
  by (simp add: parse_entry_point_def split_at_def strip_def)

lemma registered_entry_points_eq:
  "registered_entry_points ctx =
     [Some \<lparr>ep_group = ''pygments.lexers'', ep_name = ''dyms'',
            ep_module = ''dyms_lexer'', ep_attr = ''DymsLexer''\<rparr>]"
  by (simp add: registered_entry_points_def kwarg_entry_points entry_lines_def strings_of_def
      parse_dyms_entry)

lemma parse_pygments_requirement:
  "parse_requirement ''Pygments>=2.0'' =
     Some \<lparr>req_name = ''Pygments'', req_op = ''>='', req_version = [2, 0]\<rparr>"
  by (simp add: parse_requirement_def is_op_char_def strip_def parse_version_def
      parse_number_def digit_val_def Let_def)

lemma declared_requirements_eq:
  "declared_requirements ctx =
     [Some \<lparr>req_name = ''Pygments'', req_op = ''>='', req_version = [2, 0]\<rparr>]"
  by (simp add: declared_requirements_def kwarg_install_requires strings_of_def
      parse_pygments_requirement)

text \<open>The requirement does exclude versions: 1.6 is below the bound.\<close>

lemma pygments_1_6_rejected:
  "satisfies [1, 6] \<lparr>req_name = ''Pygments'', req_op = ''>='', req_version = [2, 0]\<rparr>
     = Some False"
  by (simp add: satisfies_def)

subsection \<open>Scanning for packages\<close>

text \<open>A directory none of whose entries is kept has no package, whatever else it holds.\<close>

lemma find_iter_none_kept:
  "\<forall>(n, d) \<in> set es. \<not> keeps n d \<Longrightarrow> find_iter pre (Dir es) = []"
  by (induction es) auto

lemma find_packages_no_package_dir:
  "\<forall>(n, d) \<in> set es. \<not> looks_like_package d \<Longrightarrow> find_packages es = []"
  unfolding find_packages_def by (rule find_iter_none_kept) (auto simp: keeps_def)

lemma find_packages_provided: "find_packages provided_source = []"
  by (simp add: find_packages_def provided_source_def keeps_def)


text \<open>
  The walk is top-down: the packages of a directory come before those of its
  subdirectories, and neither a dotted directory nor one without \<^verbatim>\<open>__init__.py\<close> is
  entered.
\<close>

lemma find_packages_order:
  "find_packages
     [(''a'', Dir [(''__init__.py'', File), (''x'', Dir [(''__init__.py'', File)])]),
      (''b'', Dir [(''__init__.py'', File)]),
      (''c.d'', Dir [(''__init__.py'', File)]),
      (''e'', Dir [(''f'', Dir [(''__init__.py'', File)])]),
      (''setup.py'', File)]
   = [''a'', ''b'', ''a.x'']"
  by (simp add: find_packages_def keeps_def package_def excluded_def ends_with_def)


lemma find_packages_dir_ba: "find_packages dir_ba = [''b'', ''a'', ''b.x'']"
  by (simp add: find_packages_def dir_ba_def keeps_def package_def excluded_def ends_with_def)

subsection \<open>The same contents hold the same packages\<close>











subsection \<open>Running the file\<close>

text \<open>
  With an installation whose scan returns what \<open>find_packages\<close> above computes, the
  call of \<open>setup\<close> receives the arguments \<open>setup_kwargs\<close>.
\<close>

lemma setup_py_reaches_setup:
  "import_setuptools h ctx = Inr u \<Longrightarrow>
   lib_find_packages h (cwd ctx) = Inr (find_packages (cwd ctx)) \<Longrightarrow>
   setup_py h ctx = lib_setup h (setup_kwargs ctx)"
  by (simp add: setup_py_def setup_kwargs_def)

section \<open>The claims\<close>

text \<open>
  C1. The descriptor registers exactly one entry point: the \<open>entry_points\<close> argument is a
  dict with the single group \<open>pygments.lexers\<close>, whose list holds the single string
  \<open>dyms = dyms_lexer:DymsLexer\<close>; read as an entry point, it maps the name \<open>dyms\<close> to the
  attribute \<open>DymsLexer\<close> of module \<open>dyms_lexer\<close>. This holds in every context.
\<close>

theorem single_entry_point:
  "kwarg ctx ''entry_points'' =
     Some (PDict [(''pygments.lexers'', PList [PStr ''dyms = dyms_lexer:DymsLexer''])])
   \<and> registered_entry_points ctx =
       [Some \<lparr>ep_group = ''pygments.lexers'', ep_name = ''dyms'',
              ep_module = ''dyms_lexer'', ep_attr = ''DymsLexer''\<rparr>]"
  by (simp add: kwarg_entry_points registered_entry_points_eq)

text \<open>
  C2. The descriptor declares exactly one runtime dependency: \<open>install_requires\<close> is the
  one-element list holding \<open>Pygments>=2.0\<close>, that is, the distribution Pygments with the
  operator \<open>>=\<close> and the version 2.0.
\<close>

theorem single_dependency:
  "kwarg ctx ''install_requires'' = Some (PList [PStr ''Pygments>=2.0''])
   \<and> declared_requirements ctx =
       [Some \<lparr>req_name = ''Pygments'', req_op = ''>='', req_version = [2, 0]\<rparr>]"
  by (simp add: kwarg_install_requires declared_requirements_eq)




text \<open>
  C4, as stated, fails: the call passes an eighth argument, \<open>packages\<close>, which is not among
  the seven fields the claim lists.
\<close>

theorem seven_fields_counterexample:
  "set (map fst (setup_kwargs ctx_provided)) \<noteq>
     {''name'', ''version'', ''author'', ''description'', ''install_requires'',
      ''entry_points'', ''classifiers''}"
proof -
  have "''packages'' \<in> set (map fst (setup_kwargs ctx_provided))"
    by (simp add: setup_kwargs_def setup_call_def)
  moreover have "''packages'' \<notin> {''name'', ''version'', ''author'', ''description'',
      ''install_requires'', ''entry_points'', ''classifiers''}"
    by simp
  ultimately show ?thesis by metis
qed

text \<open>
  C4, amended. The metadata passed to \<open>setup\<close> consists exactly of eight fields: name,
  version, description, author, packages, the dependency list, the entry-point mapping and
  the classifier tags, in this order and in every context.
\<close>

theorem eight_fields:
  "map fst (setup_kwargs ctx) =
     [''name'', ''version'', ''description'', ''author'', ''packages'', ''install_requires'',
      ''entry_points'', ''classifiers'']"
  by (simp add: setup_kwargs_def setup_call_def)

text \<open>
  C5. The distributable unit has a name and a version: the name is \<open>dyms_lexer\<close> and the
  version is \<open>0.2.0\<close>, in every context.
\<close>

theorem name_and_version:
  "kwarg ctx ''name'' = Some (PStr ''dyms_lexer'')
   \<and> kwarg ctx ''version'' = Some (PStr ''0.2.0'')"
  by (simp add: kwarg_def setup_kwargs_def setup_call_def)

text \<open>
  C6. The module of the registered entry point is not provided by the given source tree;
  whenever the tree extended by further entries provides it, those further entries alone
  provide it: the lexer has to come from outside the given files.
\<close>

theorem lexer_not_provided:
  assumes "registered_entry_points ctx = [Some ep]"
  shows "\<not> provides_module provided_source (ep_module ep)
    \<and> (provides_module (provided_source @ extra) (ep_module ep)
        \<longrightarrow> provides_module extra (ep_module ep))"
proof -
  from assms have "ep = \<lparr>ep_group = ''pygments.lexers'', ep_name = ''dyms'',
      ep_module = ''dyms_lexer'', ep_attr = ''DymsLexer''\<rparr>"
    by (simp add: registered_entry_points_eq)
  then have m: "ep_module ep = ''dyms_lexer''"
    by simp
  show ?thesis
    unfolding m by (simp add: provides_module_def provided_source_def)
qed

theorem lexer_not_provided_witness:
  "registered_entry_points ctx_provided =
     [Some \<lparr>ep_group = ''pygments.lexers'', ep_name = ''dyms'',
            ep_module = ''dyms_lexer'', ep_attr = ''DymsLexer''\<rparr>]
   \<and> \<not> provides_module provided_source ''dyms_lexer''
   \<and> provides_module (provided_source @ [(''dyms_lexer.py'', File)]) ''dyms_lexer''
   \<and> provides_module [(''dyms_lexer.py'', File)] ''dyms_lexer''"
proof -
  have r: "registered_entry_points ctx_provided =
     [Some \<lparr>ep_group = ''pygments.lexers'', ep_name = ''dyms'',
            ep_module = ''dyms_lexer'', ep_attr = ''DymsLexer''\<rparr>]"
    by (rule registered_entry_points_eq)
  have p: "provides_module (provided_source @ [(''dyms_lexer.py'', File)]) ''dyms_lexer''"
    by (simp add: provides_module_def provided_source_def)
  show ?thesis
    using r p lexer_not_provided [OF r, of "[(''dyms_lexer.py'', File)]"] by simp
qed

text \<open>
  C7. The file handles no error itself. A failure of the import, of the scan for packages
  or of \<open>setup\<close> ends the file with that very failure: none is caught, replaced or
  retried. When import and scan succeed, the result of the file is the result of
  \<open>setup\<close> on the arguments, success or failure alike. And the file has no failure of
  its own: if it fails, one of the three steps failed with that failure.
\<close>

theorem no_error_handling:
  "(import_setuptools h ctx = Inl e \<longrightarrow> setup_py h ctx = Inl e)
   \<and> (import_setuptools h ctx = Inr u \<and> lib_find_packages h (cwd ctx) = Inl e
      \<longrightarrow> setup_py h ctx = Inl e)
   \<and> (import_setuptools h ctx = Inr u \<and> lib_find_packages h (cwd ctx) = Inr ps
      \<longrightarrow> setup_py h ctx = lib_setup h (setup_call ps))
   \<and> (setup_py h ctx = Inl e
      \<longrightarrow> import_setuptools h ctx = Inl e
          \<or> lib_find_packages h (cwd ctx) = Inl e
          \<or> (\<exists>qs. lib_find_packages h (cwd ctx) = Inr qs
                \<and> lib_setup h (setup_call qs) = Inl e))"
  by (auto simp: setup_py_def split: sum.splits)

theorem no_error_handling_witness:
  "setup_py h_no_setuptools ctx_provided = Inl ''ModuleNotFoundError''
   \<and> setup_py h_scan_fails ctx_provided = Inl ''RecursionError''
   \<and> setup_py h_ok ctx_provided = Inr 8
   \<and> setup_py h_setup_fails ctx_provided = Inl ''version conflict''
   \<and> lib_setup h_setup_fails (setup_call []) = Inl ''version conflict''"
proof -
  have a: "setup_py h_no_setuptools ctx_provided = Inl ''ModuleNotFoundError''"
    using no_error_handling [of h_no_setuptools ctx_provided "''ModuleNotFoundError''"]
    by (simp add: h_no_setuptools_def h_ok_def)
  have b: "setup_py h_scan_fails ctx_provided = Inl ''RecursionError''"
    using no_error_handling [of h_scan_fails ctx_provided "''RecursionError''" "()"]
    by (simp add: h_scan_fails_def h_ok_def)
  have c: "setup_py h_ok ctx_provided = Inr 8"
    using no_error_handling [of h_ok ctx_provided _ "()" "[]"]
    by (simp add: h_ok_def ctx_provided_def find_packages_provided setup_call_def)
  have d: "setup_py h_setup_fails ctx_provided = Inl ''version conflict''"
    using no_error_handling [of h_setup_fails ctx_provided _ "()" "[]"]
    by (simp add: h_setup_fails_def h_ok_def ctx_provided_def find_packages_provided)
  have e: "lib_setup h_setup_fails (setup_call []) = Inl ''version conflict''"
    using d no_error_handling [of h_setup_fails ctx_provided "''version conflict''"]
    by (simp add: h_setup_fails_def h_ok_def ctx_provided_def find_packages_provided)
  from a b c d e show ?thesis by simp
qed

text \<open>
  C8. The declared dependency constraint is satisfiable: the one declared requirement is on
  Pygments, and some version satisfies it.
\<close>

theorem dependency_satisfiable:
  "\<exists>q v. declared_requirements ctx = [Some q] \<and> req_name q = ''Pygments''
     \<and> satisfies v q = Some True"
proof -
  have "satisfies [2, 0] \<lparr>req_name = ''Pygments'', req_op = ''>='', req_version = [2, 0]\<rparr>
      = Some True"
    by (simp add: satisfies_def)
  then show ?thesis
    using declared_requirements_eq [of ctx] by fastforce
qed

text \<open>
  C9. Over the provided source tree \<open>find_packages\<close> returns the empty list, so the
  \<open>packages\<close> argument is the empty list; and the call names no single modules either
  (there is no \<open>py_modules\<close> argument).
\<close>

theorem no_packages_in_provided_source:
  "find_packages provided_source = []
   \<and> kwarg \<lparr>cwd = provided_source, environ = env\<rparr> ''packages'' = Some (PList [])
   \<and> kwarg \<lparr>cwd = provided_source, environ = env\<rparr> ''py_modules'' = None"
  by (simp add: kwarg_packages find_packages_provided) (simp add: kwarg_def setup_kwargs_def setup_call_def)

text \<open>
  C10. The \<open>classifiers\<close> argument is, in every context, the same list of nine tags in the
  same order, among them the development status Beta, the OSI-approved MIT license,
  Python 3 and OS independence.
\<close>

theorem classifiers_fixed:
  "kwarg ctx ''classifiers'' =
     Some (PList [PStr ''Development Status :: 4 - Beta'',
                  PStr ''Environment :: Plugins'',
                  PStr ''Intended Audience :: Developers'',
                  PStr ''License :: OSI Approved :: MIT License'',
                  PStr ''Operating System :: OS Independent'',
                  PStr ''Programming Language :: Python'',
                  PStr ''Programming Language :: Python :: 3'',
                  PStr ''Topic :: Software Development :: Libraries :: Python Modules'',
                  PStr ''Topic :: Text Processing :: Filters''])
   \<and> length classifiers = 9"
  by (simp add: kwarg_def setup_kwargs_def setup_call_def classifiers_def)

end
